theory Spec2Isabelle
  imports Main "HOL-Library.Sublist"
begin

section \<open>JavaScript values\<close>

text \<open>
  A property of a JavaScript object may be absent (\<open>undefined\<close>), \<open>null\<close>, or hold a
  value. The three are kept apart because the service compares them with the loose
  equality \<open>==\<close>, under which \<open>null\<close> and \<open>undefined\<close> are equal to each other and to
  nothing else.
\<close>

datatype 'a jsopt = Undefined | Null | Val 'a

fun loose_eq :: "'a jsopt \<Rightarrow> 'a jsopt \<Rightarrow> bool" where
  "loose_eq (Val a) (Val b) = (a = b)"
| "loose_eq (Val a) _ = False"
| "loose_eq _ (Val b) = False"
| "loose_eq _ _ = True"

text \<open>Truthiness of an optional enum tag: the tags are non-empty strings.\<close>

fun truthy :: "'a jsopt \<Rightarrow> bool" where
  "truthy (Val _) = True"
| "truthy _ = False"

text \<open>
  Decimal rendering of a number inside a template literal, for the integers of an id
  column (from \<open>1e21\<close> on JavaScript prints a number in exponent form).
\<close>

definition digit :: "nat \<Rightarrow> char" where
  "digit d = char_of (d + 48)"

fun decimal :: "nat \<Rightarrow> string" where
  "decimal n = (if 10 \<le> n then decimal (n div 10) @ [digit (n mod 10)] else [digit n])"

definition string_of_int :: "int \<Rightarrow> string" where
  "string_of_int i = (if i < 0 then CHR ''-'' # decimal (nat (- i)) else decimal (nat i))"

section \<open>Data model\<close>

text \<open>
  Modelled from the spec: the enums of \<open>../types\<close> and \<open>../../filters/types\<close> are not
  among the sources. The strategy tags are ALL, LIST_STAGE, ASSIGNEES and DUE_DATE, the
  source-entity tags are LIST_STAGE and USER, and the four due-date labels are the
  names the spec gives to the due-date groups. Of the filter owner tags the service
  names LIST_GROUP only; \<open>OTHER_OWNER\<close> stands for every other tag. The tag ALL is written
  \<open>OPT_ALL\<close> and the source-entity tags carry the prefix \<open>ET_\<close>.
\<close>

datatype ListGroupOptions = OPT_ALL | LIST_STAGE | ASSIGNEES | DUE_DATE

datatype ListGroupEntityTypes = ET_LIST_STAGE | ET_USER

datatype ListGroupDueDate = PAST_DUE | TODAY | UPCOMING | NO_DUE_DATE

fun dueDateLabel :: "ListGroupDueDate \<Rightarrow> string" where
  "dueDateLabel PAST_DUE = ''Past Due''"
| "dueDateLabel TODAY = ''Today''"
| "dueDateLabel UPCOMING = ''Upcoming''"
| "dueDateLabel NO_DUE_DATE = ''No Due Date''"

datatype FilterEntityTypes = LIST_GROUP | OTHER_OWNER string

text \<open>
  A filter expression \<open>{ and: [ { field, operator, value }, ... ] }\<close>. The values the
  service writes are a number, a string, a list of strings, or \<open>null\<close>.
\<close>

datatype FilterValue = VNull | VNumber int | VString string | VList "string list"

datatype FieldFilter = FieldFilter (ff_field: string) (ff_operator: string) (ff_value: FilterValue)

datatype FilterGroup = And "FieldFilter list"

text \<open>
  The records below carry a prefix on every field, since the entity, the two DTOs and
  the collaborators' records share most of their field names: \<open>g_\<close> for
  \<open>CreateListGroupDto\<close> (a generated group), \<open>lg_\<close> for the \<open>ListGroup\<close> entity, \<open>p_\<close> for
  \<open>UpdateListGroupDto\<close>, \<open>f_\<close> for the \<open>Filter\<close> entity, \<open>ls_\<close> for a list stage and \<open>u_\<close>
  for a user. \<open>g_filter\<close> is \<open>filter.where\<close> of the DTO, \<open>None\<close> when the DTO has no
  \<open>filter\<close>.
\<close>

record CreateListGroupDto =
  g_entityId :: "int jsopt"
  g_entityType :: "ListGroupEntityTypes jsopt"
  g_type :: "ListGroupOptions jsopt"
  g_name :: string
  g_filter :: "FilterGroup option"
  g_icon :: "string jsopt"
  g_color :: "string jsopt"
  g_order :: "int jsopt"
  g_isExpanded :: "bool jsopt"
  g_listId :: "int jsopt"

record Filter =
  f_id :: int
  f_entityId :: int
  f_entityType :: FilterEntityTypes
  f_where :: FilterGroup

record ListGroup =
  lg_id :: int
  lg_name :: string
  lg_type :: "ListGroupOptions jsopt"
  lg_entityId :: "int jsopt"
  lg_entityType :: "ListGroupEntityTypes jsopt"
  lg_isExpanded :: "bool jsopt"
  lg_color :: "string jsopt"
  lg_icon :: "string jsopt"
  lg_order :: "int jsopt"
  lg_listId :: "int jsopt"
  lg_filter :: "Filter option"

text \<open>
  Modelled from the spec: \<open>UpdateListGroupDto\<close> is not among the sources. It is a partial
  patch of the group's columns; an absent (\<open>undefined\<close>) field is skipped by the
  repository's \<open>merge\<close>.
\<close>

record UpdateListGroupDto =
  p_name :: "string option"
  p_type :: "ListGroupOptions jsopt"
  p_entityId :: "int jsopt"
  p_entityType :: "ListGroupEntityTypes jsopt"
  p_isExpanded :: "bool jsopt"
  p_color :: "string jsopt"
  p_icon :: "string jsopt"
  p_order :: "int jsopt"

record ListStage =
  ls_id :: int
  ls_name :: string
  ls_color :: "string jsopt"
  ls_order :: int
  ls_listId :: int
  ls_isCompleted :: bool

record User =
  u_id :: int
  u_firstName :: string
  u_lastName :: string
  u_photo :: "string jsopt"

record GenerateGroupsParams =
  listId :: int
  ignoreCompleted :: bool
  groupBy :: "ListGroupOptions jsopt"

section \<open>The store and its failures\<close>

text \<open>
  The persistent state the service works on: the group and filter tables in insertion
  order with their id sequences, the stage table, and the user lookup. The nested
  membership predicate of the user lookup is answered from \<open>listMembers\<close>: the pairs of a
  list id and a user of the project owning that list. \<open>orderDefault\<close> is the rank the group
  table gives to a row saved without an \<open>order\<close> (the entity declaration, with its column
  defaults, is not among the sources).
\<close>

record world =
  groupRows :: "ListGroup list"
  filterRows :: "Filter list"
  nextGroupId :: int
  nextFilterId :: int
  stageRows :: "ListStage list"
  listMembers :: "(int \<times> User) list"
  orderDefault :: int

datatype error = NotFoundException string | StoreFailure

text \<open>
  The state of a promise once nothing more can happen to it: fulfilled, rejected, or
  never settled.
\<close>

datatype 'a promise = Fulfilled 'a | Rejected error | Pending

text \<open>
  Which calls to the persistence layer and to the collaborating services reject during
  one run of \<open>generateGroups\<close>. The two creations are indexed by the position of the
  generated group in \<open>cardGroups\<close>.
\<close>

record faults =
  initialFetchFails :: bool
  stageLookupFails :: bool
  userLookupFails :: bool
  groupSaveFails :: "nat \<Rightarrow> bool"
  filterCreateFails :: "nat \<Rightarrow> bool"
  finalFetchFails :: bool
  activeStageLookupFails :: bool

definition noFaults :: faults where
  "noFaults = \<lparr> initialFetchFails = False, stageLookupFails = False, userLookupFails = False,
     groupSaveFails = (\<lambda>_. False), filterCreateFails = (\<lambda>_. False),
     finalFetchFails = False, activeStageLookupFails = False \<rparr>"

section \<open>Collaborators\<close>

text \<open>
  Modelled from the spec: the stage service is not among the sources. \<open>findAll({listId})\<close>
  answers the stages of the list in their own order; \<open>findBy({where: {listId,
  isCompleted}})\<close> answers the stages of the list with that completion flag.
\<close>

definition listStages_findAll :: "bool \<Rightarrow> world \<Rightarrow> int \<Rightarrow> error + ListStage list" where
  "listStages_findAll fails w lid =
     (if fails then Inl StoreFailure
      else Inr (sort_key ls_order (filter (\<lambda>s. ls_listId s = lid) (stageRows w))))"

definition listStages_findBy :: "bool \<Rightarrow> world \<Rightarrow> int \<Rightarrow> bool \<Rightarrow> error + ListStage list" where
  "listStages_findBy fails w lid completed =
     (if fails then Inl StoreFailure
      else Inr (filter (\<lambda>s. ls_listId s = lid \<and> ls_isCompleted s = completed) (stageRows w)))"

text \<open>
  Modelled from the spec: the user service is not among the sources. \<open>findAll\<close> with the
  nested membership predicate answers \<open>{ users }\<close>, the users of the owning project.
\<close>

definition users_findAll :: "bool \<Rightarrow> world \<Rightarrow> int \<Rightarrow> error + User list" where
  "users_findAll fails w lid =
     (if fails then Inl StoreFailure
      else Inr (map snd (filter (\<lambda>m. fst m = lid) (listMembers w))))"

text \<open>
  Modelled from the spec: the filter service is not among the sources.
  \<open>create({entityId, entityType, where})\<close> persists one filter row.
\<close>

definition filters_create ::
  "bool \<Rightarrow> int \<Rightarrow> FilterEntityTypes \<Rightarrow> FilterGroup \<Rightarrow> world \<Rightarrow> (error + Filter) \<times> world" where
  "filters_create fails eid ety wh w =
     (if fails then (Inl StoreFailure, w)
      else
        (let flt = \<lparr> f_id = nextFilterId w, f_entityId = eid, f_entityType = ety, f_where = wh \<rparr>
         in (Inr flt, w\<lparr> filterRows := filterRows w @ [flt], nextFilterId := nextFilterId w + 1 \<rparr>)))"

section \<open>The service\<close>

subsection \<open>create\<close>

text \<open>
  \<open>repository.create\<close> copies the columns of the DTO into a new entity (the DTO's
  \<open>filter\<close> is not a column), and \<open>repository.save\<close> inserts it under the next id of the
  sequence.
\<close>

definition create :: "bool \<Rightarrow> CreateListGroupDto \<Rightarrow> world \<Rightarrow> (error + ListGroup) \<times> world" where
  "create fails createListGroupDto w =
     (if fails then (Inl StoreFailure, w)
      else
        (let listGroup = \<lparr> lg_id = nextGroupId w,
               lg_name = g_name createListGroupDto,
               lg_type = g_type createListGroupDto,
               lg_entityId = g_entityId createListGroupDto,
               lg_entityType = g_entityType createListGroupDto,
               lg_isExpanded = g_isExpanded createListGroupDto,
               lg_color = g_color createListGroupDto,
               lg_icon = g_icon createListGroupDto,
               lg_order = g_order createListGroupDto,
               lg_listId = g_listId createListGroupDto,
               lg_filter = None \<rparr>
         in (Inr listGroup,
             w\<lparr> groupRows := groupRows w @ [listGroup], nextGroupId := nextGroupId w + 1 \<rparr>)))"

subsection \<open>findAll\<close>

text \<open>
  The query: the rows of the list (and of the strategy, when \<open>groupBy\<close> is truthy),
  ascending by \<open>order\<close>, each with the first filter row owned by it mapped to its
  \<open>filter\<close> property. Rows of equal order keep their insertion order. The inner join
  with the owning list attaches the list row and is not modelled: a group row always
  references an existing list.
\<close>

definition orderKey :: "world \<Rightarrow> ListGroup \<Rightarrow> int" where
  "orderKey w g = (case lg_order g of Val n \<Rightarrow> n | _ \<Rightarrow> orderDefault w)"

definition joinFilter :: "world \<Rightarrow> ListGroup \<Rightarrow> ListGroup" where
  "joinFilter w g =
     g\<lparr> lg_filter := find (\<lambda>f. f_entityId f = lg_id g \<and> f_entityType f = LIST_GROUP) (filterRows w) \<rparr>"

definition selected :: "int \<Rightarrow> ListGroupOptions jsopt \<Rightarrow> ListGroup \<Rightarrow> bool" where
  "selected lid gb g =
     (lg_listId g = Val lid \<and> (if truthy gb then lg_type g = gb else True))"

definition findAll :: "bool \<Rightarrow> world \<Rightarrow> int \<Rightarrow> ListGroupOptions jsopt \<Rightarrow> error + ListGroup list" where
  "findAll fails w lid gb =
     (if fails then Inl StoreFailure
      else Inr (map (joinFilter w) (sort_key (orderKey w) (filter (selected lid gb) (groupRows w)))))"

text \<open>What \<open>findAll\<close> answers when the query does not fail.\<close>

definition fetched :: "world \<Rightarrow> int \<Rightarrow> ListGroupOptions jsopt \<Rightarrow> ListGroup list" where
  "fetched w lid gb = (case findAll False w lid gb of Inr found \<Rightarrow> found | Inl e \<Rightarrow> [])"

subsection \<open>The three strategies\<close>

definition DEFAULT_GROUP :: CreateListGroupDto where
  "DEFAULT_GROUP = \<lparr> g_entityId = Undefined, g_entityType = Undefined, g_type = Val OPT_ALL,
     g_name = ''All'', g_filter = None, g_icon = Undefined, g_color = Undefined,
     g_order = Undefined, g_isExpanded = Undefined, g_listId = Undefined \<rparr>"

definition stageGroup :: "ListStage \<Rightarrow> CreateListGroupDto" where
  "stageGroup stage = \<lparr> g_entityId = Val (ls_id stage),
     g_entityType = Val ET_LIST_STAGE,
     g_type = Val LIST_STAGE,
     g_name = ls_name stage,
     g_filter = Some (And [FieldFilter ''cardLists.listStageId'' ''eq'' (VNumber (ls_id stage))]),
     g_icon = Undefined,
     g_color = ls_color stage,
     g_order = Val (ls_order stage),
     g_isExpanded = Undefined, g_listId = Undefined \<rparr>"

definition generateGroupsByListStage :: "bool \<Rightarrow> world \<Rightarrow> int \<Rightarrow> error + CreateListGroupDto list" where
  "generateGroupsByListStage fails w lid =
     (case listStages_findAll fails w lid of
        Inl e \<Rightarrow> Inl e
      | Inr stages \<Rightarrow> Inr (map stageGroup stages))"

definition userGroup :: "nat \<times> User \<Rightarrow> CreateListGroupDto" where
  "userGroup iu = (case iu of (index, user) \<Rightarrow>
     \<lparr> g_entityId = Val (u_id user),
       g_entityType = Val ET_USER,
       g_type = Val ASSIGNEES,
       g_name = u_firstName user @ '' '' @ u_lastName user,
       g_filter = Some (And [FieldFilter ''users.id'' ''eq'' (VNumber (u_id user))]),
       g_icon = u_photo user,
       g_color = Undefined,
       g_order = Val (int index + 1),
       g_isExpanded = Undefined, g_listId = Undefined \<rparr>)"

definition noAssigneeGroup :: CreateListGroupDto where
  "noAssigneeGroup = \<lparr> g_entityId = Null, g_entityType = Null, g_type = Val ASSIGNEES,
     g_name = ''No Assignee'',
     g_filter = Some (And [FieldFilter ''users.id'' ''isNull'' VNull]),
     g_icon = Undefined, g_color = Undefined, g_order = Undefined,
     g_isExpanded = Undefined, g_listId = Undefined \<rparr>"

definition generateGroupsByAssignees :: "bool \<Rightarrow> world \<Rightarrow> int \<Rightarrow> error + CreateListGroupDto list" where
  "generateGroupsByAssignees fails w lid =
     (case users_findAll fails w lid of
        Inl e \<Rightarrow> Inl e
      | Inr users \<Rightarrow> Inr (map userGroup (enumerate 0 users) @ [noAssigneeGroup]))"

definition dueDateGroup ::
  "ListGroupDueDate \<Rightarrow> string \<Rightarrow> FilterValue \<Rightarrow> string \<Rightarrow> string \<Rightarrow> int \<Rightarrow> CreateListGroupDto" where
  "dueDateGroup label operator v icon color ord =
     \<lparr> g_entityId = Undefined, g_entityType = Undefined, g_type = Val DUE_DATE,
       g_name = dueDateLabel label,
       g_filter = Some (And [FieldFilter ''card.dueAt'' operator v]),
       g_icon = Val icon, g_color = Val color, g_order = Val ord,
       g_isExpanded = Undefined, g_listId = Undefined \<rparr>"

definition generateGroupsByDueDate :: "CreateListGroupDto list" where
  "generateGroupsByDueDate =
     [ dueDateGroup PAST_DUE ''lt'' (VString '':startOfDay'') ''mdi-clock-time-eight'' ''error'' 1,
       dueDateGroup TODAY ''between'' (VList ['':startOfDay'', '':endOfDay''])
         ''mdi-clock-time-twelve'' ''info'' 2,
       dueDateGroup UPCOMING ''gt'' (VString '':endOfDay'') ''mdi-clock-time-four'' ''default'' 3,
       dueDateGroup NO_DUE_DATE ''isNull'' VNull ''mdi-clock-time-six-outline'' ''default'' 4 ]"

subsection \<open>generateGroups\<close>

text \<open>The comparison of an existing group with a generated one, by \<open>==\<close> on the three keys.\<close>

definition matches :: "CreateListGroupDto \<Rightarrow> ListGroup \<Rightarrow> bool" where
  "matches generatedGroup grp =
     (loose_eq (lg_entityId grp) (g_entityId generatedGroup) \<and>
      loose_eq (lg_entityType grp) (g_entityType generatedGroup) \<and>
      lg_name grp = g_name generatedGroup)"

text \<open>
  The switch on \<open>groupBy\<close>; it compares with \<open>===\<close>, so an unset \<open>groupBy\<close> takes the
  default branch, as OPT_ALL does.
\<close>

definition cardGroups :: "faults \<Rightarrow> world \<Rightarrow> int \<Rightarrow> ListGroupOptions jsopt \<Rightarrow> error + CreateListGroupDto list" where
  "cardGroups flt w lid gb =
     (if gb = Val LIST_STAGE then generateGroupsByListStage (stageLookupFails flt) w lid
      else if gb = Val ASSIGNEES then generateGroupsByAssignees (userLookupFails flt) w lid
      else if gb = Val DUE_DATE then Inr generateGroupsByDueDate
      else Inr [DEFAULT_GROUP])"

text \<open>
  One promise of \<open>checkIfGroupsExist\<close>. Its executor calls \<open>resolve\<close> at once when a
  matching group exists. Otherwise it calls \<open>create\<close> and resolves in a \<open>then\<close> of the
  creation (after the filter's creation, when the generated group has a filter). The
  executor takes no \<open>reject\<close> and the chains have no rejection handler: when one of the
  two creations rejects, the rejection stays unhandled, \<open>resolve\<close> is never called and
  the promise stays pending. A group whose filter could not be created stays stored.
  What the run-time does with an unhandled rejection (it may end the process) is outside
  the model; in either case the promise does not settle and no stored row is changed.
\<close>

definition checkGroup ::
  "faults \<Rightarrow> ListGroup list \<Rightarrow> ListGroupOptions jsopt \<Rightarrow> int \<Rightarrow> nat \<Rightarrow> CreateListGroupDto \<Rightarrow> world
     \<Rightarrow> (bool \<times> ListGroup) promise \<times> world" where
  "checkGroup flt existingGroups gb lid i generatedGroup w =
     (case find (matches generatedGroup) existingGroups of
        None \<Rightarrow>
          (case create (groupSaveFails flt i)
                  (generatedGroup\<lparr> g_isExpanded := Val True, g_type := gb, g_listId := Val lid \<rparr>) w of
             (Inl e, w1) \<Rightarrow> (Pending, w1)
           | (Inr grp, w1) \<Rightarrow>
               (case g_filter generatedGroup of
                  Some wh \<Rightarrow>
                    (case filters_create (filterCreateFails flt i) (lg_id grp) LIST_GROUP wh w1 of
                       (Inl e, w2) \<Rightarrow> (Pending, w2)
                     | (Inr created, w2) \<Rightarrow> (Fulfilled (False, grp), w2))
                | None \<Rightarrow> (Fulfilled (False, grp), w1)))
      | Some check \<Rightarrow> (Fulfilled (True, check), w))"

text \<open>
  \<open>cardGroups.map\<close> runs the executors in the order of the generated groups, each against
  the same \<open>existingGroups\<close>; the creations are taken to reach the store in that order.
\<close>

fun checkIfGroupsExist ::
  "faults \<Rightarrow> ListGroup list \<Rightarrow> ListGroupOptions jsopt \<Rightarrow> int \<Rightarrow> nat \<Rightarrow> CreateListGroupDto list \<Rightarrow> world
     \<Rightarrow> (bool \<times> ListGroup) promise list \<times> world" where
  "checkIfGroupsExist flt existingGroups gb lid i [] w = ([], w)"
| "checkIfGroupsExist flt existingGroups gb lid i (generatedGroup # rest) w =
     (case checkGroup flt existingGroups gb lid i generatedGroup w of
        (pr, w1) \<Rightarrow>
          (case checkIfGroupsExist flt existingGroups gb lid (Suc i) rest w1 of
             (prs, w2) \<Rightarrow> (pr # prs, w2)))"

text \<open>\<open>Promise.allSettled\<close> settles once every promise has settled, and never rejects.\<close>

definition allSettled :: "'a promise list \<Rightarrow> 'a promise list promise" where
  "allSettled ps = (if list_ex (\<lambda>pr. pr = Pending) ps then Pending else Fulfilled ps)"

definition generateGroups ::
  "faults \<Rightarrow> GenerateGroupsParams \<Rightarrow> world \<Rightarrow> ListGroup list promise \<times> world" where
  "generateGroups flt params w =
     (case findAll (initialFetchFails flt) w (listId params) (groupBy params) of
        Inl e \<Rightarrow> (Rejected e, w)
      | Inr existingGroups \<Rightarrow>
          (case cardGroups flt w (listId params) (groupBy params) of
             Inl e \<Rightarrow> (Rejected e, w)
           | Inr generated \<Rightarrow>
               (case checkIfGroupsExist flt existingGroups (groupBy params) (listId params) 0 generated w of
                  (checks, w1) \<Rightarrow>
                    (case allSettled checks of
                       Pending \<Rightarrow> (Pending, w1)
                     | Rejected e \<Rightarrow> (Rejected e, w1)
                     | Fulfilled settled \<Rightarrow>
                         (case findAll (finalFetchFails flt) w1 (listId params) (groupBy params) of
                            Inl e \<Rightarrow> (Rejected e, w1)
                          | Inr finalGroups \<Rightarrow>
                              (if groupBy params = Val LIST_STAGE \<and> ignoreCompleted params then
                                 (case listStages_findBy (activeStageLookupFails flt) w1 (listId params) False of
                                    Inl e \<Rightarrow> (Rejected e, w1)
                                  | Inr listStages \<Rightarrow>
                                      (Fulfilled
                                         (filter (\<lambda>grp. lg_name grp \<in> set (map ls_name listStages))
                                            finalGroups), w1))
                               else (Fulfilled finalGroups, w1)))))))"

subsection \<open>findOne and update\<close>

definition findOne :: "bool \<Rightarrow> world \<Rightarrow> int \<Rightarrow> error + ListGroup" where
  "findOne fails w i =
     (if fails then Inl StoreFailure
      else
        (case find (\<lambda>g. lg_id g = i) (groupRows w) of
           None \<Rightarrow> Inl (NotFoundException (''List Group with ID '' @ string_of_int i @ '' not found''))
         | Some listGroup \<Rightarrow> Inr listGroup))"

text \<open>
  \<open>repository.merge\<close> copies every property of the patch that is not \<open>undefined\<close> onto the
  entity. \<open>repository.save\<close> of an entity whose id is in the table rewrites that row, and
  inserts the entity otherwise.
\<close>

fun mergeField :: "'a jsopt \<Rightarrow> 'a jsopt \<Rightarrow> 'a jsopt" where
  "mergeField old Undefined = old"
| "mergeField old new = new"

definition merge :: "ListGroup \<Rightarrow> UpdateListGroupDto \<Rightarrow> ListGroup" where
  "merge listGroup updateListGroupDto =
     listGroup\<lparr>
       lg_name := (case p_name updateListGroupDto of None \<Rightarrow> lg_name listGroup | Some n \<Rightarrow> n),
       lg_type := mergeField (lg_type listGroup) (p_type updateListGroupDto),
       lg_entityId := mergeField (lg_entityId listGroup) (p_entityId updateListGroupDto),
       lg_entityType := mergeField (lg_entityType listGroup) (p_entityType updateListGroupDto),
       lg_isExpanded := mergeField (lg_isExpanded listGroup) (p_isExpanded updateListGroupDto),
       lg_color := mergeField (lg_color listGroup) (p_color updateListGroupDto),
       lg_icon := mergeField (lg_icon listGroup) (p_icon updateListGroupDto),
       lg_order := mergeField (lg_order listGroup) (p_order updateListGroupDto) \<rparr>"

definition save :: "bool \<Rightarrow> ListGroup \<Rightarrow> world \<Rightarrow> (error + ListGroup) \<times> world" where
  "save fails listGroup w =
     (if fails then (Inl StoreFailure, w)
      else if list_ex (\<lambda>r. lg_id r = lg_id listGroup) (groupRows w) then
        (Inr listGroup,
         w\<lparr> groupRows := map (\<lambda>r. if lg_id r = lg_id listGroup then listGroup else r) (groupRows w) \<rparr>)
      else (Inr listGroup, w\<lparr> groupRows := groupRows w @ [listGroup] \<rparr>))"

definition update ::
  "bool \<Rightarrow> bool \<Rightarrow> int \<Rightarrow> UpdateListGroupDto \<Rightarrow> world \<Rightarrow> ListGroup promise \<times> world" where
  "update lookupFails saveFails i updateListGroupDto w =
     (case findOne lookupFails w i of
        Inl e \<Rightarrow> (Rejected e, w)
      | Inr listGroup \<Rightarrow>
          (case save saveFails (merge listGroup updateListGroupDto) w of
             (Inl e, w1) \<Rightarrow> (Rejected e, w1)
           | (Inr saved, w1) \<Rightarrow> (Fulfilled saved, w1)))"

section \<open>An example store\<close>

text \<open>
  List 7 has the stages Todo, Doing and Done, the last one completed, and two project
  members; no group has been generated yet.
\<close>

definition exStage :: "int \<Rightarrow> string \<Rightarrow> int \<Rightarrow> bool \<Rightarrow> ListStage" where
  "exStage i n ord completed = \<lparr> ls_id = i, ls_name = n, ls_color = Val ''blue'', ls_order = ord,
     ls_listId = 7, ls_isCompleted = completed \<rparr>"

definition exStages :: "ListStage list" where
  "exStages = [exStage 11 ''Todo'' 1 False, exStage 12 ''Doing'' 2 False, exStage 13 ''Done'' 3 True]"

definition exUsers :: "User list" where
  "exUsers = [\<lparr> u_id = 21, u_firstName = ''Ada'', u_lastName = ''Lovelace'', u_photo = Val ''ada.png'' \<rparr>,
              \<lparr> u_id = 22, u_firstName = ''Alan'', u_lastName = ''Turing'', u_photo = Null \<rparr>]"

definition exWorld :: world where
  "exWorld = \<lparr> groupRows = [], filterRows = [], nextGroupId = 1, nextFilterId = 1,
     stageRows = exStages, listMembers = map (Pair 7) exUsers, orderDefault = 100 \<rparr>"

definition exParams :: "ListGroupOptions jsopt \<Rightarrow> bool \<Rightarrow> GenerateGroupsParams" where
  "exParams gb ic = \<lparr> listId = 7, ignoreCompleted = ic, groupBy = gb \<rparr>"

text \<open>The store after the stage groups of list 7 have been generated.\<close>

definition exStageGroup :: "int \<Rightarrow> ListStage \<Rightarrow> ListGroup" where
  "exStageGroup i stage = \<lparr> lg_id = i, lg_name = ls_name stage, lg_type = Val LIST_STAGE,
     lg_entityId = Val (ls_id stage), lg_entityType = Val ET_LIST_STAGE, lg_isExpanded = Val True,
     lg_color = ls_color stage, lg_icon = Undefined, lg_order = Val (ls_order stage),
     lg_listId = Val 7, lg_filter = None \<rparr>"

definition exStageFilter :: "int \<Rightarrow> ListStage \<Rightarrow> Filter" where
  "exStageFilter i stage = \<lparr> f_id = i, f_entityId = i, f_entityType = LIST_GROUP,
     f_where = And [FieldFilter ''cardLists.listStageId'' ''eq'' (VNumber (ls_id stage))] \<rparr>"

definition exWorldStaged :: world where
  "exWorldStaged = exWorld\<lparr>
     groupRows := map (\<lambda>(i, stage). exStageGroup i stage) (zip [1, 2, 3] exStages),
     filterRows := map (\<lambda>(i, stage). exStageFilter i stage) (zip [1, 2, 3] exStages),
     nextGroupId := 4, nextFilterId := 4 \<rparr>"

text \<open>
  Two runs that meet one failure each: the creation of the first generated group
  rejects, and the user lookup rejects.
\<close>

definition exFirstSaveFails :: faults where
  "exFirstSaveFails = noFaults\<lparr> groupSaveFails := (\<lambda>i. i = 0) \<rparr>"

definition exUserLookupFails :: faults where
  "exUserLookupFails = noFaults\<lparr> userLookupFails := True \<rparr>"

text \<open>A patch that renames a group and leaves every other field out.\<close>

definition exRename :: UpdateListGroupDto where
  "exRename = \<lparr> p_name = Some ''In progress'', p_type = Undefined, p_entityId = Undefined,
     p_entityType = Undefined, p_isExpanded = Undefined, p_color = Undefined, p_icon = Undefined,
     p_order = Undefined \<rparr>"

definition exAllGroup :: ListGroup where
  "exAllGroup = \<lparr> lg_id = 4, lg_name = ''All'', lg_type = Undefined,
     lg_entityId = Undefined, lg_entityType = Undefined, lg_isExpanded = Val True,
     lg_color = Undefined, lg_icon = Undefined, lg_order = Undefined,
     lg_listId = Val 7, lg_filter = None \<rparr>"

section \<open>Facts about the store operations\<close>

lemma loose_eq_refl: "loose_eq x x"
  by (cases x) simp_all

lemma matches_joinFilter: "matches d (joinFilter w g) = matches d g"
  by (simp add: matches_def joinFilter_def)

lemma create_frame:
  "create fails dto w = (r, w') \<Longrightarrow>
     prefix (groupRows w) (groupRows w') \<and> filterRows w' = filterRows w \<and>
     stageRows w' = stageRows w \<and> listMembers w' = listMembers w \<and> orderDefault w' = orderDefault w"
  by (auto simp: create_def Let_def split: if_splits)

lemma filters_create_frame:
  "filters_create fails eid ety wh w = (r, w') \<Longrightarrow>
     groupRows w' = groupRows w \<and> prefix (filterRows w) (filterRows w') \<and>
     stageRows w' = stageRows w \<and> listMembers w' = listMembers w \<and> orderDefault w' = orderDefault w"
  by (auto simp: filters_create_def Let_def split: if_splits)

lemma fetched_eq:
  "fetched w lid gb = map (joinFilter w) (sort_key (orderKey w) (filter (selected lid gb) (groupRows w)))"
  by (simp add: fetched_def findAll_def)

lemma findAll_fetched: "findAll fails w lid gb = (if fails then Inl StoreFailure else Inr (fetched w lid gb))"
  by (simp add: findAll_def fetched_eq)

lemma find_matches_fetched:
  "find (matches d) (fetched w lid gb) \<noteq> None \<longleftrightarrow>
     (\<exists>r\<in>set (groupRows w). selected lid gb r \<and> matches d r)"
  by (auto simp: find_None_iff fetched_eq matches_joinFilter)

lemma selected_created: "lg_type g = gb \<Longrightarrow> lg_listId g = Val lid \<Longrightarrow> selected lid gb g"
  by (simp add: selected_def)

lemma selected_unset: "\<not> truthy gb \<Longrightarrow> selected lid gb = (\<lambda>g. lg_listId g = Val lid)"
  by (auto simp: selected_def)

lemma allSettled_Fulfilled: "allSettled ps = Fulfilled qs \<longleftrightarrow> Pending \<notin> set ps \<and> qs = ps"
  by (auto simp: allSettled_def list_ex_iff)

lemma mergeField_cases: "mergeField old new = (if new = Undefined then old else new)"
  by (cases new) simp_all

section \<open>Facts about one reconciliation\<close>

lemma checkGroup_frame:
  assumes "checkGroup flt E gb lid i d w = (pr, w')"
  shows "prefix (groupRows w) (groupRows w') \<and> prefix (filterRows w) (filterRows w') \<and>
     stageRows w' = stageRows w \<and> listMembers w' = listMembers w \<and> orderDefault w' = orderDefault w"
  using assms
  by (auto simp: checkGroup_def split: option.splits prod.splits sum.splits
      dest!: create_frame filters_create_frame)

lemma checkGroup_match:
  "find (matches d) E = Some c \<Longrightarrow> checkGroup flt E gb lid i d w = (Fulfilled (True, c), w)"
  by (simp add: checkGroup_def)

lemma checkGroup_created:
  assumes "find (matches d) E = None" "\<not> groupSaveFails flt i" "checkGroup flt E gb lid i d w = (pr, w')"
  shows "\<exists>g\<in>set (groupRows w'). matches d g \<and> lg_type g = gb \<and> lg_listId g = Val lid"
  using assms
  by (auto simp: checkGroup_def create_def filters_create_def Let_def matches_def loose_eq_refl
      split: option.splits prod.splits sum.splits if_splits)

lemma checkGroup_Pending:
  assumes "checkGroup flt E gb lid i d w = (pr, w')"
  shows "pr = Pending \<longleftrightarrow>
     find (matches d) E = None \<and> (groupSaveFails flt i \<or> (g_filter d \<noteq> None \<and> filterCreateFails flt i))"
  using assms
  by (auto simp: checkGroup_def create_def filters_create_def Let_def
      split: option.splits prod.splits sum.splits if_splits)

lemma checkIfGroupsExist_frame:
  "checkIfGroupsExist flt E gb lid i ds w = (prs, w') \<Longrightarrow>
     prefix (groupRows w) (groupRows w') \<and> prefix (filterRows w) (filterRows w') \<and>
     stageRows w' = stageRows w \<and> listMembers w' = listMembers w \<and> orderDefault w' = orderDefault w"
proof (induction ds arbitrary: i w prs w')
  case Nil
  then show ?case by simp
next
  case (Cons d ds)
  obtain pr w1 where step: "checkGroup flt E gb lid i d w = (pr, w1)"
    by (cases "checkGroup flt E gb lid i d w")
  obtain prs1 w2 where rest: "checkIfGroupsExist flt E gb lid (Suc i) ds w1 = (prs1, w2)"
    by (cases "checkIfGroupsExist flt E gb lid (Suc i) ds w1")
  from Cons.prems step rest have w': "w2 = w'" by simp
  from checkGroup_frame[OF step] Cons.IH[OF rest[unfolded w']] show ?case
    by (auto intro: prefix_order.trans)
qed

lemma checkIfGroupsExist_all_match:
  "\<forall>d\<in>set ds. find (matches d) E \<noteq> None \<Longrightarrow>
     snd (checkIfGroupsExist flt E gb lid i ds w) = w \<and>
     Pending \<notin> set (fst (checkIfGroupsExist flt E gb lid i ds w))"
proof (induction ds arbitrary: i)
  case Nil
  then show ?case by simp
next
  case (Cons d ds)
  then obtain c where c: "find (matches d) E = Some c" by auto
  from Cons have IH: "snd (checkIfGroupsExist flt E gb lid (Suc i) ds w) = w \<and>
     Pending \<notin> set (fst (checkIfGroupsExist flt E gb lid (Suc i) ds w))" by simp
  show ?case using IH
    by (auto simp: checkGroup_match[OF c] split: prod.splits)
qed

lemma checkIfGroupsExist_attempts:
  "checkIfGroupsExist flt E gb lid i ds w = (prs, w') \<Longrightarrow> j < length ds \<Longrightarrow>
     find (matches (ds ! j)) E = None \<Longrightarrow> \<not> groupSaveFails flt (i + j) \<Longrightarrow>
     \<exists>g\<in>set (groupRows w'). matches (ds ! j) g \<and> lg_type g = gb \<and> lg_listId g = Val lid"
proof (induction ds arbitrary: i j w prs w')
  case Nil
  then show ?case by simp
next
  case (Cons d ds)
  obtain pr w1 where step: "checkGroup flt E gb lid i d w = (pr, w1)"
    by (cases "checkGroup flt E gb lid i d w")
  obtain prs1 w2 where rest: "checkIfGroupsExist flt E gb lid (Suc i) ds w1 = (prs1, w2)"
    by (cases "checkIfGroupsExist flt E gb lid (Suc i) ds w1")
  from Cons.prems(1) step rest have w': "w2 = w'" by simp
  note rest = rest[unfolded w']
  show ?case
  proof (cases j)
    case 0
    with Cons.prems have "find (matches d) E = None" "\<not> groupSaveFails flt i" by simp_all
    from checkGroup_created[OF this step]
    obtain g where g: "g \<in> set (groupRows w1)" "matches d g" "lg_type g = gb" "lg_listId g = Val lid"
      by blast
    from checkIfGroupsExist_frame[OF rest] have "set (groupRows w1) \<subseteq> set (groupRows w')"
      by (auto dest: set_mono_prefix)
    with g 0 show ?thesis by auto
  next
    case (Suc k)
    with Cons.prems have "k < length ds" "find (matches (ds ! k)) E = None"
      "\<not> groupSaveFails flt (Suc i + k)" by simp_all
    from Cons.IH[OF rest this] show ?thesis using Suc by simp
  qed
qed

lemma checkIfGroupsExist_Pending:
  "checkIfGroupsExist flt E gb lid i ds w = (prs, w') \<Longrightarrow>
     length prs = length ds \<and>
     (\<forall>j<length ds. prs ! j = Pending \<longleftrightarrow>
        find (matches (ds ! j)) E = None \<and>
        (groupSaveFails flt (i + j) \<or> (g_filter (ds ! j) \<noteq> None \<and> filterCreateFails flt (i + j))))"
proof (induction ds arbitrary: i w prs w')
  case Nil
  then show ?case by auto
next
  case (Cons d ds)
  obtain pr w1 where step: "checkGroup flt E gb lid i d w = (pr, w1)"
    by (cases "checkGroup flt E gb lid i d w")
  obtain prs1 w2 where rest: "checkIfGroupsExist flt E gb lid (Suc i) ds w1 = (prs1, w2)"
    by (cases "checkIfGroupsExist flt E gb lid (Suc i) ds w1")
  from Cons.prems step rest have prs: "prs = pr # prs1" by simp
  note IH = Cons.IH[OF rest]
  note P = checkGroup_Pending[OF step]
  show ?case
  proof (intro conjI allI impI)
    show "length prs = length (d # ds)" using IH prs by simp
  next
    fix j assume "j < length (d # ds)"
    then show "prs ! j = Pending \<longleftrightarrow>
        find (matches ((d # ds) ! j)) E = None \<and>
        (groupSaveFails flt (i + j) \<or> (g_filter ((d # ds) ! j) \<noteq> None \<and> filterCreateFails flt (i + j)))"
      using IH P prs by (cases j) auto
  qed
qed

lemma reconciled_all_match:
  assumes rec: "checkIfGroupsExist flt (fetched w lid gb) gb lid 0 D w = (prs, w1)"
    and settled: "Pending \<notin> set prs"
  shows "\<forall>d\<in>set D. find (matches d) (fetched w1 lid gb) \<noteq> None"
proof
  fix d assume "d \<in> set D"
  then obtain j where j: "j < length D" "d = D ! j" by (auto simp: in_set_conv_nth)
  from checkIfGroupsExist_frame[OF rec] have sub: "set (groupRows w) \<subseteq> set (groupRows w1)"
    by (auto dest: set_mono_prefix)
  from checkIfGroupsExist_Pending[OF rec] j
  have len: "length prs = length D"
    and pend: "prs ! j = Pending \<longleftrightarrow> find (matches d) (fetched w lid gb) = None \<and>
        (groupSaveFails flt (0 + j) \<or> (g_filter d \<noteq> None \<and> filterCreateFails flt (0 + j)))"
    by auto
  from settled len j have np: "prs ! j \<noteq> Pending" by (metis nth_mem)
  show "find (matches d) (fetched w1 lid gb) \<noteq> None"
  proof (cases "find (matches d) (fetched w lid gb) = None")
    case True
    with pend np have "\<not> groupSaveFails flt (0 + j)" by simp
    from checkIfGroupsExist_attempts[OF rec j(1) _ this] True j
    obtain g where "g \<in> set (groupRows w1)" "matches d g" "lg_type g = gb" "lg_listId g = Val lid"
      by auto
    then show ?thesis unfolding find_matches_fetched by (auto intro: selected_created)
  next
    case False
    then obtain r where "r \<in> set (groupRows w)" "selected lid gb r" "matches d r"
      unfolding find_matches_fetched by blast
    with sub show ?thesis unfolding find_matches_fetched by blast
  qed
qed

section \<open>Facts about generateGroups\<close>

lemma cardGroups_same:
  assumes "cardGroups flt w lid gb = Inr D" "cardGroups flt2 w1 lid gb = Inr D2"
    "stageRows w1 = stageRows w" "listMembers w1 = listMembers w"
  shows "D2 = D"
  using assms
  by (auto simp: cardGroups_def generateGroupsByListStage_def generateGroupsByAssignees_def
      listStages_findAll_def users_findAll_def split: if_splits)

lemma cardGroups_noFaults:
  assumes "cardGroups flt w lid gb = Inr D" "stageRows w1 = stageRows w" "listMembers w1 = listMembers w"
  shows "cardGroups noFaults w1 lid gb = Inr D"
  using assms
  by (auto simp: cardGroups_def generateGroupsByListStage_def generateGroupsByAssignees_def
      listStages_findAll_def users_findAll_def noFaults_def split: if_splits)

lemma cardGroups_unset: "\<not> truthy gb \<Longrightarrow> cardGroups flt w lid gb = Inr [DEFAULT_GROUP]"
  by (cases gb) (auto simp: cardGroups_def)

lemma generateGroups_Fulfilled:
  assumes "generateGroups flt params w = (Fulfilled res, w1)"
  shows "\<exists>D prs.
     \<not> initialFetchFails flt \<and>
     cardGroups flt w (listId params) (groupBy params) = Inr D \<and>
     checkIfGroupsExist flt (fetched w (listId params) (groupBy params)) (groupBy params) (listId params) 0 D w
       = (prs, w1) \<and>
     Pending \<notin> set prs \<and>
     \<not> finalFetchFails flt \<and>
     (if groupBy params = Val LIST_STAGE \<and> ignoreCompleted params
      then \<not> activeStageLookupFails flt \<and>
           res = filter (\<lambda>g. lg_name g \<in> set (map ls_name
                   (filter (\<lambda>s. ls_listId s = listId params \<and> ls_isCompleted s = False) (stageRows w1))))
                   (fetched w1 (listId params) (groupBy params))
      else res = fetched w1 (listId params) (groupBy params))"
  using assms
  unfolding generateGroups_def findAll_fetched listStages_findBy_def
  by (auto split: if_splits sum.splits prod.splits promise.splits simp: allSettled_Fulfilled)

lemma generateGroups_world:
  "snd (generateGroups flt params w) = w \<or>
   (\<exists>D. cardGroups flt w (listId params) (groupBy params) = Inr D \<and> \<not> initialFetchFails flt \<and>
     snd (generateGroups flt params w) =
       snd (checkIfGroupsExist flt (fetched w (listId params) (groupBy params)) (groupBy params) (listId params) 0 D w))"
  unfolding generateGroups_def findAll_fetched listStages_findBy_def
  by (auto split: if_splits sum.splits prod.splits promise.splits)

section \<open>Generation is idempotent\<close>

text \<open>
  C1. Once a run of \<open>generateGroups\<close> has returned, a further run for the same list and
  strategy, over the same stages and users, leaves the store as it is, whatever fails in
  it: every generated group finds a match on (source-entity id, source-entity type, name)
  among the fetched groups and is skipped. With no failure the further run returns what
  the first one returned.
\<close>

theorem generateGroups_idempotent:
  assumes run1: "generateGroups flt1 params w = (Fulfilled res, w1)"
    and same: "listId params2 = listId params" "groupBy params2 = groupBy params"
  shows "snd (generateGroups flt2 params2 w1) = w1 \<and>
         generateGroups noFaults params w1 = (Fulfilled res, w1)"
proof -
  let ?lid = "listId params" and ?gb = "groupBy params"
  from generateGroups_Fulfilled[OF run1] obtain D prs where
    D: "cardGroups flt1 w ?lid ?gb = Inr D"
    and rec: "checkIfGroupsExist flt1 (fetched w ?lid ?gb) ?gb ?lid 0 D w = (prs, w1)"
    and settled: "Pending \<notin> set prs"
    and res: "(if ?gb = Val LIST_STAGE \<and> ignoreCompleted params
      then res = filter (\<lambda>g. lg_name g \<in> set (map ls_name
                   (filter (\<lambda>s. ls_listId s = ?lid \<and> ls_isCompleted s = False) (stageRows w1))))
                   (fetched w1 ?lid ?gb)
      else res = fetched w1 ?lid ?gb)"
    by (auto split: if_splits)
  from checkIfGroupsExist_frame[OF rec]
  have fr: "stageRows w1 = stageRows w" "listMembers w1 = listMembers w" by simp_all
  have all: "\<forall>d\<in>set D. find (matches d) (fetched w1 ?lid ?gb) \<noteq> None"
    by (rule reconciled_all_match[OF rec settled])
  have noop: "\<And>flt i. snd (checkIfGroupsExist flt (fetched w1 ?lid ?gb) ?gb ?lid i D w1) = w1 \<and>
     Pending \<notin> set (fst (checkIfGroupsExist flt (fetched w1 ?lid ?gb) ?gb ?lid i D w1))"
    by (rule checkIfGroupsExist_all_match[OF all])
  have first: "snd (generateGroups flt2 params2 w1) = w1"
  proof -
    from generateGroups_world[of flt2 params2 w1] show ?thesis
    proof
      assume "snd (generateGroups flt2 params2 w1) = w1"
      then show ?thesis .
    next
      assume "\<exists>D2. cardGroups flt2 w1 (listId params2) (groupBy params2) = Inr D2 \<and>
         \<not> initialFetchFails flt2 \<and>
         snd (generateGroups flt2 params2 w1) =
           snd (checkIfGroupsExist flt2 (fetched w1 (listId params2) (groupBy params2))
                 (groupBy params2) (listId params2) 0 D2 w1)"
      then obtain D2 where D2: "cardGroups flt2 w1 ?lid ?gb = Inr D2"
        and eq: "snd (generateGroups flt2 params2 w1) =
           snd (checkIfGroupsExist flt2 (fetched w1 ?lid ?gb) ?gb ?lid 0 D2 w1)"
        unfolding same by blast
      from cardGroups_same[OF D D2 fr] have "D2 = D" .
      with eq noop show ?thesis by simp
    qed
  qed
  have second: "generateGroups noFaults params w1 = (Fulfilled res, w1)"
  proof -
    from cardGroups_noFaults[OF D fr] have c: "cardGroups noFaults w1 ?lid ?gb = Inr D" .
    obtain prs2 w2 where r2: "checkIfGroupsExist noFaults (fetched w1 ?lid ?gb) ?gb ?lid 0 D w1 = (prs2, w2)"
      by (cases "checkIfGroupsExist noFaults (fetched w1 ?lid ?gb) ?gb ?lid 0 D w1")
    with noop[of noFaults 0] have w2: "w2 = w1" and np: "Pending \<notin> set prs2" by simp_all
    from np have a: "allSettled prs2 = Fulfilled prs2" by (simp add: allSettled_Fulfilled)
    have nf: "initialFetchFails noFaults = False" "finalFetchFails noFaults = False"
      "activeStageLookupFails noFaults = False" by (simp_all add: noFaults_def)
    show ?thesis
      unfolding generateGroups_def findAll_fetched listStages_findBy_def nf
      using c r2 w2 a res by (simp split: if_splits)
  qed
  from first second show ?thesis ..
qed

text \<open>
  On the example store: the stage groups of list 7 are generated once; a second run
  changes nothing and returns the same groups.
\<close>

theorem generateGroups_idempotent_witness:
  "generateGroups noFaults (exParams (Val LIST_STAGE) False) exWorld
     = (Fulfilled (fetched exWorldStaged 7 (Val LIST_STAGE)), exWorldStaged) \<and>
   snd (generateGroups noFaults (exParams (Val LIST_STAGE) True) exWorldStaged) = exWorldStaged \<and>
   generateGroups noFaults (exParams (Val LIST_STAGE) False) exWorldStaged
     = (Fulfilled (fetched exWorldStaged 7 (Val LIST_STAGE)), exWorldStaged)"
proof -
  have h: "generateGroups noFaults (exParams (Val LIST_STAGE) False) exWorld
     = (Fulfilled (fetched exWorldStaged 7 (Val LIST_STAGE)), exWorldStaged)"
    by code_simp
  have p: "listId (exParams (Val LIST_STAGE) True) = listId (exParams (Val LIST_STAGE) False)"
    "groupBy (exParams (Val LIST_STAGE) True) = groupBy (exParams (Val LIST_STAGE) False)"
    by (simp_all add: exParams_def)
  from generateGroups_idempotent[OF h p] h show ?thesis by simp
qed

section \<open>A failed creation\<close>

text \<open>
  C2. A creation that fails inside the fan-out is to be swallowed: the run waits for the
  sibling attempts and returns all the same. The code does not do so. On the example
  store, let the creation of the first due-date group reject while neither fetch and no
  lookup fails: the promise of that group never settles, \<open>Promise.allSettled\<close> never
  settles, and the run stays pending instead of returning.
\<close>

theorem creation_failure_hangs:
  "groupSaveFails exFirstSaveFails 0 \<and>
   initialFetchFails exFirstSaveFails = False \<and> finalFetchFails exFirstSaveFails = False \<and>
   stageLookupFails exFirstSaveFails = False \<and> userLookupFails exFirstSaveFails = False \<and>
   activeStageLookupFails exFirstSaveFails = False \<and>
   fst (generateGroups exFirstSaveFails (exParams (Val DUE_DATE) False) exWorld) = Pending"
  by code_simp

text \<open>
  A rejected user lookup is thrown to the caller, as a rejected fetch or stage lookup is.
\<close>

lemma user_lookup_failure_thrown:
  "fst (generateGroups exUserLookupFails (exParams (Val ASSIGNEES) False) exWorld) = Rejected StoreFailure"
  by code_simp

section \<open>The three strategies\<close>

text \<open>
  C3. \<open>generateGroupsByDueDate\<close> takes no input and returns four generated groups, in
  the order Past Due (\<open>lt\<close> the start-of-day placeholder, order 1), Today (\<open>between\<close> the
  start-of-day and end-of-day placeholders, order 2), Upcoming (\<open>gt\<close> the end-of-day
  placeholder, order 3), No Due Date (\<open>isNull\<close>, order 4), none with a source-entity id or
  type; they are the generated groups of every DUE_DATE run, whatever the store holds.
\<close>

theorem generateGroupsByDueDate_fixed:
  "length generateGroupsByDueDate = 4 \<and>
   map g_name generateGroupsByDueDate = [''Past Due'', ''Today'', ''Upcoming'', ''No Due Date''] \<and>
   map g_filter generateGroupsByDueDate =
     [Some (And [FieldFilter ''card.dueAt'' ''lt'' (VString '':startOfDay'')]),
      Some (And [FieldFilter ''card.dueAt'' ''between'' (VList ['':startOfDay'', '':endOfDay''])]),
      Some (And [FieldFilter ''card.dueAt'' ''gt'' (VString '':endOfDay'')]),
      Some (And [FieldFilter ''card.dueAt'' ''isNull'' VNull])] \<and>
   map g_order generateGroupsByDueDate = [Val 1, Val 2, Val 3, Val 4] \<and>
   map g_entityId generateGroupsByDueDate = [Undefined, Undefined, Undefined, Undefined] \<and>
   map g_entityType generateGroupsByDueDate = [Undefined, Undefined, Undefined, Undefined] \<and>
   cardGroups flt w lid (Val DUE_DATE) = Inr generateGroupsByDueDate"
  by (simp add: generateGroupsByDueDate_def dueDateGroup_def cardGroups_def)

text \<open>
  C4. \<open>generateGroupsByListStage\<close> returns one generated group per stage the lookup
  answers, in the lookup's order: source entity the stage's id with the stage entity
  type, strategy LIST_STAGE, the stage's name, color and order, and a filter that is the
  conjunction of the one condition \<open>cardLists.listStageId eq\<close> the stage's id.
\<close>

theorem generateGroupsByListStage_descriptors:
  assumes "listStages_findAll fails w lid = Inr stgs"
  shows "\<exists>ds. generateGroupsByListStage fails w lid = Inr ds \<and> length ds = length stgs \<and>
     (\<forall>i<length stgs.
        g_entityId (ds ! i) = Val (ls_id (stgs ! i)) \<and>
        g_entityType (ds ! i) = Val ET_LIST_STAGE \<and>
        g_type (ds ! i) = Val LIST_STAGE \<and>
        g_name (ds ! i) = ls_name (stgs ! i) \<and>
        g_color (ds ! i) = ls_color (stgs ! i) \<and>
        g_order (ds ! i) = Val (ls_order (stgs ! i)) \<and>
        g_filter (ds ! i) =
          Some (And [FieldFilter ''cardLists.listStageId'' ''eq'' (VNumber (ls_id (stgs ! i)))]))"
  using assms by (simp add: generateGroupsByListStage_def stageGroup_def)

text \<open>
  On the example store, for the third stage of list 7.
\<close>

theorem generateGroupsByListStage_descriptors_witness:
  "listStages_findAll False exWorld 7 = Inr exStages \<and>
   (\<exists>ds. generateGroupsByListStage False exWorld 7 = Inr ds \<and> length ds = 3 \<and>
      g_name (ds ! 2) = ''Done'' \<and> g_entityId (ds ! 2) = Val 13 \<and> g_order (ds ! 2) = Val 3 \<and>
      g_filter (ds ! 2) = Some (And [FieldFilter ''cardLists.listStageId'' ''eq'' (VNumber 13)]))"
proof -
  have h: "listStages_findAll False exWorld 7 = Inr exStages" by code_simp
  have s: "length exStages = 3" "ls_name (exStages ! 2) = ''Done''" "ls_id (exStages ! 2) = 13"
    "ls_order (exStages ! 2) = 3"
    by (simp_all add: exStages_def exStage_def)
  from generateGroupsByListStage_descriptors[OF h] s h show ?thesis by auto
qed

text \<open>
  C5. \<open>generateGroupsByAssignees\<close> returns one generated group per user the lookup
  answers, in the lookup's order (named first name, space, last name; icon the user's
  photo; order the index plus one; filter \<open>users.id eq\<close> the user's id), followed by one
  last group with \<open>null\<close> source-entity id and type, the name No Assignee, no order and
  the filter \<open>users.id isNull\<close>. With no user the result is that last group alone.
\<close>

theorem generateGroupsByAssignees_descriptors:
  assumes "users_findAll fails w lid = Inr users"
  shows "\<exists>ds. generateGroupsByAssignees fails w lid = Inr ds \<and> length ds = length users + 1 \<and>
     (\<forall>i<length users.
        g_entityId (ds ! i) = Val (u_id (users ! i)) \<and>
        g_entityType (ds ! i) = Val ET_USER \<and>
        g_type (ds ! i) = Val ASSIGNEES \<and>
        g_name (ds ! i) = u_firstName (users ! i) @ '' '' @ u_lastName (users ! i) \<and>
        g_icon (ds ! i) = u_photo (users ! i) \<and>
        g_order (ds ! i) = Val (int i + 1) \<and>
        g_filter (ds ! i) = Some (And [FieldFilter ''users.id'' ''eq'' (VNumber (u_id (users ! i)))])) \<and>
     g_entityId (ds ! length users) = Null \<and>
     g_entityType (ds ! length users) = Null \<and>
     g_name (ds ! length users) = ''No Assignee'' \<and>
     g_order (ds ! length users) = Undefined \<and>
     g_filter (ds ! length users) = Some (And [FieldFilter ''users.id'' ''isNull'' VNull]) \<and>
     (users = [] \<longrightarrow> ds = [noAssigneeGroup])"
  using assms
  by (simp add: generateGroupsByAssignees_def userGroup_def noAssigneeGroup_def nth_append
      nth_enumerate_eq)

text \<open>
  On the example store: list 7 has two members, list 8 has none.
\<close>

theorem generateGroupsByAssignees_descriptors_witness:
  "users_findAll False exWorld 7 = Inr exUsers \<and> users_findAll False exWorld 8 = Inr [] \<and>
   (\<exists>ds. generateGroupsByAssignees False exWorld 7 = Inr ds \<and> length ds = 3 \<and>
      g_name (ds ! 1) = ''Alan Turing'' \<and> g_order (ds ! 1) = Val 2 \<and> g_icon (ds ! 1) = Null \<and>
      g_name (ds ! 2) = ''No Assignee'' \<and> g_entityId (ds ! 2) = Null \<and> g_order (ds ! 2) = Undefined) \<and>
   generateGroupsByAssignees False exWorld 8 = Inr [noAssigneeGroup]"
proof -
  have h: "users_findAll False exWorld 7 = Inr exUsers" by code_simp
  have h0: "users_findAll False exWorld 8 = Inr []" by code_simp
  have s: "length exUsers = 2" "u_firstName (exUsers ! 1) = ''Alan''" "u_lastName (exUsers ! 1) = ''Turing''"
    "u_photo (exUsers ! 1) = Null"
    by (simp_all add: exUsers_def)
  from generateGroupsByAssignees_descriptors[OF h] s
  have one: "\<exists>ds. generateGroupsByAssignees False exWorld 7 = Inr ds \<and> length ds = 3 \<and>
      g_name (ds ! 1) = ''Alan Turing'' \<and> g_order (ds ! 1) = Val 2 \<and> g_icon (ds ! 1) = Null \<and>
      g_name (ds ! 2) = ''No Assignee'' \<and> g_entityId (ds ! 2) = Null \<and> g_order (ds ! 2) = Undefined"
    by auto
  from generateGroupsByAssignees_descriptors[OF h0]
  have two: "generateGroupsByAssignees False exWorld 8 = Inr [noAssigneeGroup]" by auto
  from h h0 one two show ?thesis by blast
qed

section \<open>Ignoring completed stages\<close>



section \<open>findOne\<close>

text \<open>
  C7. \<open>findOne\<close> raises NotFound exactly when the lookup answers and the table has no
  group of that id; when the table has one, \<open>findOne\<close> returns a group of that id and
  raises nothing.
\<close>

theorem findOne_NotFound_iff:
  "((\<exists>msg. findOne fails w i = Inl (NotFoundException msg)) \<longleftrightarrow>
      \<not> fails \<and> (\<forall>g\<in>set (groupRows w). lg_id g \<noteq> i)) \<and>
   (\<not> fails \<longrightarrow> (\<exists>g\<in>set (groupRows w). lg_id g = i) \<longrightarrow>
      (\<exists>g\<in>set (groupRows w). lg_id g = i \<and> findOne fails w i = Inr g))"
  by (auto simp: findOne_def find_None_iff find_Some_iff split: option.splits)

text \<open>
  On the example store: id 99 is unknown, id 2 is the Doing group.
\<close>

theorem findOne_NotFound_iff_witness:
  "99 \<notin> set (map lg_id (groupRows exWorldStaged)) \<and>
   findOne False exWorldStaged 99 = Inl (NotFoundException ''List Group with ID 99 not found'') \<and>
   (\<exists>g\<in>set (groupRows exWorldStaged). lg_id g = 2) \<and>
   (\<exists>g\<in>set (groupRows exWorldStaged). lg_id g = 2 \<and> findOne False exWorldStaged 2 = Inr g)"
proof -
  have a: "\<forall>g\<in>set (groupRows exWorldStaged). lg_id g \<noteq> 99" by code_simp
  have b: "\<exists>g\<in>set (groupRows exWorldStaged). lg_id g = 2" by code_simp
  have c: "findOne False exWorldStaged 99 = Inl (NotFoundException ''List Group with ID 99 not found'')"
    by code_simp
  from findOne_NotFound_iff[of False exWorldStaged 2] b
  have "\<exists>g\<in>set (groupRows exWorldStaged). lg_id g = 2 \<and> findOne False exWorldStaged 2 = Inr g"
    by blast
  moreover from findOne_NotFound_iff[of False exWorldStaged 99] a
  have "\<exists>msg. findOne False exWorldStaged 99 = Inl (NotFoundException msg)" by blast
  moreover have "99 \<notin> set (map lg_id (groupRows exWorldStaged))" by code_simp
  ultimately show ?thesis using b c by blast
qed

section \<open>Generation keeps what is stored\<close>

text \<open>
  C8. \<open>generateGroups\<close> deletes and changes no stored row: whatever the run meets, the
  group table and the filter table before the run are prefixes of the tables after it,
  and the stages and the members are as before. New rows are the only change.
\<close>

theorem generateGroups_keeps_rows:
  "prefix (groupRows w) (groupRows (snd (generateGroups flt params w))) \<and>
   prefix (filterRows w) (filterRows (snd (generateGroups flt params w))) \<and>
   stageRows (snd (generateGroups flt params w)) = stageRows w \<and>
   listMembers (snd (generateGroups flt params w)) = listMembers w \<and>
   orderDefault (snd (generateGroups flt params w)) = orderDefault w"
proof -
  from generateGroups_world[of flt params w] show ?thesis
  proof
    assume "snd (generateGroups flt params w) = w"
    then show ?thesis by simp
  next
    assume "\<exists>D. cardGroups flt w (listId params) (groupBy params) = Inr D \<and> \<not> initialFetchFails flt \<and>
     snd (generateGroups flt params w) =
       snd (checkIfGroupsExist flt (fetched w (listId params) (groupBy params)) (groupBy params) (listId params) 0 D w)"
    then obtain D where D: "snd (generateGroups flt params w) =
       snd (checkIfGroupsExist flt (fetched w (listId params) (groupBy params)) (groupBy params) (listId params) 0 D w)"
      by blast
    obtain prs w1 where r: "checkIfGroupsExist flt (fetched w (listId params) (groupBy params)) (groupBy params) (listId params) 0 D w = (prs, w1)"
      by (cases "checkIfGroupsExist flt (fetched w (listId params) (groupBy params)) (groupBy params) (listId params) 0 D w")
    from checkIfGroupsExist_frame[OF r] D r show ?thesis by simp
  qed
qed

section \<open>An unset strategy\<close>

text \<open>
  C9. With an unset \<open>groupBy\<close> neither fetch constrains the strategy: the run returns
  every group of the list, of whatever strategy. When the list has no group matching
  the default group, the group named All is stored with the unset \<open>groupBy\<close> as its
  type, not with the tag ALL of the default group; when it has one, nothing is stored.
\<close>

theorem generateGroups_unset_strategy:
  assumes unset: "\<not> truthy (groupBy params)"
    and run: "generateGroups flt params w = (Fulfilled res, w1)"
  shows "res = map (joinFilter w1) (sort_key (orderKey w1)
                 (filter (\<lambda>g. lg_listId g = Val (listId params)) (groupRows w1))) \<and>
         ((\<forall>r\<in>set (groupRows w). lg_listId r = Val (listId params) \<longrightarrow> \<not> matches DEFAULT_GROUP r) \<longrightarrow>
            groupRows w1 = groupRows w @
              [\<lparr> lg_id = nextGroupId w, lg_name = ''All'', lg_type = groupBy params,
                 lg_entityId = Undefined, lg_entityType = Undefined, lg_isExpanded = Val True,
                 lg_color = Undefined, lg_icon = Undefined, lg_order = Undefined,
                 lg_listId = Val (listId params), lg_filter = None \<rparr>]) \<and>
         ((\<exists>r\<in>set (groupRows w). lg_listId r = Val (listId params) \<and> matches DEFAULT_GROUP r) \<longrightarrow>
            groupRows w1 = groupRows w)"
proof -
  let ?lid = "listId params" and ?gb = "groupBy params"
  let ?E = "fetched w ?lid ?gb"
  from unset have nls: "?gb \<noteq> Val LIST_STAGE" by auto
  from generateGroups_Fulfilled[OF run] cardGroups_unset[OF unset] nls obtain prs where
    rec: "checkIfGroupsExist flt ?E ?gb ?lid 0 [DEFAULT_GROUP] w = (prs, w1)"
    and settled: "Pending \<notin> set prs"
    and res: "res = fetched w1 ?lid ?gb"
    by auto
  have one: "res = map (joinFilter w1) (sort_key (orderKey w1)
                 (filter (\<lambda>g. lg_listId g = Val ?lid) (groupRows w1)))"
    unfolding res fetched_eq selected_unset[OF unset] ..
  have m: "find (matches DEFAULT_GROUP) ?E \<noteq> None \<longleftrightarrow>
        (\<exists>r\<in>set (groupRows w). lg_listId r = Val ?lid \<and> matches DEFAULT_GROUP r)"
    unfolding find_matches_fetched selected_unset[OF unset] ..
  obtain pr where step: "checkGroup flt ?E ?gb ?lid 0 DEFAULT_GROUP w = (pr, w1)" and pr: "pr \<noteq> Pending"
    using rec settled by (auto split: prod.splits)
  have two: "(\<forall>r\<in>set (groupRows w). lg_listId r = Val ?lid \<longrightarrow> \<not> matches DEFAULT_GROUP r) \<longrightarrow>
            groupRows w1 = groupRows w @
              [\<lparr> lg_id = nextGroupId w, lg_name = ''All'', lg_type = ?gb,
                 lg_entityId = Undefined, lg_entityType = Undefined, lg_isExpanded = Val True,
                 lg_color = Undefined, lg_icon = Undefined, lg_order = Undefined,
                 lg_listId = Val ?lid, lg_filter = None \<rparr>]"
  proof
    assume "\<forall>r\<in>set (groupRows w). lg_listId r = Val ?lid \<longrightarrow> \<not> matches DEFAULT_GROUP r"
    with m have "find (matches DEFAULT_GROUP) ?E = None" by blast
    with step pr show "groupRows w1 = groupRows w @
              [\<lparr> lg_id = nextGroupId w, lg_name = ''All'', lg_type = ?gb,
                 lg_entityId = Undefined, lg_entityType = Undefined, lg_isExpanded = Val True,
                 lg_color = Undefined, lg_icon = Undefined, lg_order = Undefined,
                 lg_listId = Val ?lid, lg_filter = None \<rparr>]"
      by (auto simp: checkGroup_def create_def DEFAULT_GROUP_def Let_def split: if_splits)
  qed
  have three: "(\<exists>r\<in>set (groupRows w). lg_listId r = Val ?lid \<and> matches DEFAULT_GROUP r) \<longrightarrow>
            groupRows w1 = groupRows w"
  proof
    assume "\<exists>r\<in>set (groupRows w). lg_listId r = Val ?lid \<and> matches DEFAULT_GROUP r"
    with m obtain c where "find (matches DEFAULT_GROUP) ?E = Some c" by auto
    from checkGroup_match[OF this, of flt ?gb ?lid 0 w] step show "groupRows w1 = groupRows w" by simp
  qed
  from one two three show ?thesis by blast
qed

text \<open>
  On the example store with its three stage groups: the run adds the group All, of unset
  type, and returns the three stage groups and the new group.
\<close>

theorem generateGroups_unset_strategy_witness:
  "\<not> truthy (groupBy (exParams Undefined False)) \<and>
   generateGroups noFaults (exParams Undefined False) exWorldStaged
     = (Fulfilled (map (joinFilter exWorldStaged) (groupRows exWorldStaged) @ [exAllGroup]),
        exWorldStaged\<lparr> groupRows := groupRows exWorldStaged @ [exAllGroup], nextGroupId := 5 \<rparr>) \<and>
   \<not> list_ex (\<lambda>r. lg_listId r = Val 7 \<and> matches DEFAULT_GROUP r) (groupRows exWorldStaged) \<and>
   groupRows (exWorldStaged\<lparr> groupRows := groupRows exWorldStaged @ [exAllGroup], nextGroupId := 5 \<rparr>)
     = groupRows exWorldStaged @ [exAllGroup] \<and>
   lg_type exAllGroup = Undefined \<and>
   map lg_type (groupRows exWorldStaged) = [Val LIST_STAGE, Val LIST_STAGE, Val LIST_STAGE]"
proof -
  let ?w1 = "exWorldStaged\<lparr> groupRows := groupRows exWorldStaged @ [exAllGroup], nextGroupId := 5 \<rparr>"
  have u: "\<not> truthy (groupBy (exParams Undefined False))" by code_simp
  have h: "generateGroups noFaults (exParams Undefined False) exWorldStaged
     = (Fulfilled (map (joinFilter exWorldStaged) (groupRows exWorldStaged) @ [exAllGroup]), ?w1)"
    by code_simp
  have n: "\<forall>r\<in>set (groupRows exWorldStaged). lg_listId r = Val 7 \<longrightarrow> \<not> matches DEFAULT_GROUP r"
    by code_simp
  have p: "listId (exParams Undefined False) = 7" "groupBy (exParams Undefined False) = Undefined"
    by (simp_all add: exParams_def)
  have a: "nextGroupId exWorldStaged = 4" by code_simp
  from generateGroups_unset_strategy[OF u h] n
  have "groupRows ?w1 = groupRows exWorldStaged @ [exAllGroup]"
    unfolding p a exAllGroup_def by blast
  moreover have "lg_type exAllGroup = Undefined" by code_simp
  moreover have "map lg_type (groupRows exWorldStaged) = [Val LIST_STAGE, Val LIST_STAGE, Val LIST_STAGE]"
    by code_simp
  moreover have "\<not> list_ex (\<lambda>r. lg_listId r = Val 7 \<and> matches DEFAULT_GROUP r) (groupRows exWorldStaged)"
    by code_simp
  ultimately show ?thesis using u h by blast
qed

section \<open>update\<close>

text \<open>
  C10. \<open>update\<close> of an id the table does not hold rejects with the NotFound error of
  \<open>findOne\<close> and leaves the store as it is. When the table holds the id, the row is
  replaced by the merged group: each field of the patch that is present replaces the
  group's field, every other field (the id, the list and the joined filter among them)
  keeps its value, and the other rows are unchanged.
\<close>

theorem update_semantics:
  "((\<forall>g\<in>set (groupRows w). lg_id g \<noteq> i) \<longrightarrow>
      findOne False w i = Inl (NotFoundException (''List Group with ID '' @ string_of_int i @ '' not found'')) \<and>
      update False saveFails i patch w
        = (Rejected (NotFoundException (''List Group with ID '' @ string_of_int i @ '' not found'')), w)) \<and>
   (find (\<lambda>g. lg_id g = i) (groupRows w) = Some g \<longrightarrow>
      update False False i patch w
        = (Fulfilled (merge g patch),
           w\<lparr> groupRows := map (\<lambda>r. if lg_id r = i then merge g patch else r) (groupRows w) \<rparr>) \<and>
      lg_id (merge g patch) = lg_id g \<and>
      lg_listId (merge g patch) = lg_listId g \<and>
      lg_filter (merge g patch) = lg_filter g \<and>
      lg_name (merge g patch) = (case p_name patch of None \<Rightarrow> lg_name g | Some n \<Rightarrow> n) \<and>
      lg_type (merge g patch) = (if p_type patch = Undefined then lg_type g else p_type patch) \<and>
      lg_entityId (merge g patch) = (if p_entityId patch = Undefined then lg_entityId g else p_entityId patch) \<and>
      lg_entityType (merge g patch)
        = (if p_entityType patch = Undefined then lg_entityType g else p_entityType patch) \<and>
      lg_isExpanded (merge g patch)
        = (if p_isExpanded patch = Undefined then lg_isExpanded g else p_isExpanded patch) \<and>
      lg_color (merge g patch) = (if p_color patch = Undefined then lg_color g else p_color patch) \<and>
      lg_icon (merge g patch) = (if p_icon patch = Undefined then lg_icon g else p_icon patch) \<and>
      lg_order (merge g patch) = (if p_order patch = Undefined then lg_order g else p_order patch))"
proof (intro conjI impI)
  assume none: "\<forall>g\<in>set (groupRows w). lg_id g \<noteq> i"
  then have f: "find (\<lambda>g. lg_id g = i) (groupRows w) = None" by (simp add: find_None_iff)
  then show "findOne False w i
      = Inl (NotFoundException (''List Group with ID '' @ string_of_int i @ '' not found''))"
    by (simp add: findOne_def)
  then show "update False saveFails i patch w
        = (Rejected (NotFoundException (''List Group with ID '' @ string_of_int i @ '' not found'')), w)"
    by (simp add: update_def)
next
  assume some: "find (\<lambda>g. lg_id g = i) (groupRows w) = Some g"
  then have g: "g \<in> set (groupRows w)" "lg_id g = i" by (auto simp: find_Some_iff)
  have id: "lg_id (merge g patch) = i" using g by (simp add: merge_def)
  have ex: "list_ex (\<lambda>r. lg_id r = i) (groupRows w)" using g by (auto simp: list_ex_iff)
  from some have fo: "findOne False w i = Inr g" by (simp add: findOne_def)
  show "update False False i patch w
        = (Fulfilled (merge g patch),
           w\<lparr> groupRows := map (\<lambda>r. if lg_id r = i then merge g patch else r) (groupRows w) \<rparr>)"
    by (simp add: update_def fo save_def id ex)
qed (simp_all add: merge_def mergeField_cases)

text \<open>
  On the example store: id 99 is unknown; renaming group 2 changes its name alone.
\<close>

theorem update_semantics_witness:
  "99 \<notin> set (map lg_id (groupRows exWorldStaged)) \<and>
   update False False 99 exRename exWorldStaged
     = (Rejected (NotFoundException ''List Group with ID 99 not found''), exWorldStaged) \<and>
   find (\<lambda>g. lg_id g = 2) (groupRows exWorldStaged) = Some (exStageGroup 2 (exStages ! 1)) \<and>
   update False False 2 exRename exWorldStaged
     = (Fulfilled ((exStageGroup 2 (exStages ! 1))\<lparr> lg_name := ''In progress'' \<rparr>),
        exWorldStaged\<lparr> groupRows :=
          [exStageGroup 1 (exStages ! 0),
           (exStageGroup 2 (exStages ! 1))\<lparr> lg_name := ''In progress'' \<rparr>,
           exStageGroup 3 (exStages ! 2)] \<rparr>) \<and>
   lg_order (merge (exStageGroup 2 (exStages ! 1)) exRename) = Val 2"
proof -
  let ?g = "exStageGroup 2 (exStages ! 1)"
  have a: "\<forall>g\<in>set (groupRows exWorldStaged). lg_id g \<noteq> 99" by code_simp
  have s: "''List Group with ID '' @ string_of_int 99 @ '' not found'' = ''List Group with ID 99 not found''"
    by code_simp
  have f: "find (\<lambda>g. lg_id g = 2) (groupRows exWorldStaged) = Some ?g" by code_simp
  have m: "merge ?g exRename = ?g\<lparr> lg_name := ''In progress'' \<rparr>" by code_simp
  have r: "map (\<lambda>r. if lg_id r = 2 then ?g\<lparr> lg_name := ''In progress'' \<rparr> else r) (groupRows exWorldStaged)
     = [exStageGroup 1 (exStages ! 0), ?g\<lparr> lg_name := ''In progress'' \<rparr>, exStageGroup 3 (exStages ! 2)]"
    by code_simp
  have o: "p_order exRename = Undefined" "lg_order ?g = Val 2" by code_simp+
  from update_semantics[of exWorldStaged 99 False exRename ?g] a
  have one: "update False False 99 exRename exWorldStaged
     = (Rejected (NotFoundException ''List Group with ID 99 not found''), exWorldStaged)"
    unfolding s by blast
  from update_semantics[of exWorldStaged 2 False exRename ?g] f
  have two: "update False False 2 exRename exWorldStaged
        = (Fulfilled (merge ?g exRename),
           exWorldStaged\<lparr> groupRows := map (\<lambda>r. if lg_id r = 2 then merge ?g exRename else r)
             (groupRows exWorldStaged) \<rparr>)"
    and three: "lg_order (merge ?g exRename) = (if p_order exRename = Undefined then lg_order ?g else p_order exRename)"
    by blast+
  have a': "99 \<notin> set (map lg_id (groupRows exWorldStaged))" by code_simp
  from a' one f two[unfolded m r] three[unfolded o] show ?thesis by simp
qed

end
